theory Spec2Isabelle
  imports Main "HOL-Library.AList" "HOL-Library.Sublist" "HOL-Library.Multiset"
    "HOL-Library.Product_Lexorder"
begin

section \<open>MemeWiki API: data model\<close>

text \<open>
  The handlers of \<^verbatim>\<open>main.py\<close> work on MongoDB documents, which Python sees as
  dictionaries. A document is an association list in insertion order; values are the
  BSON values the program stores. Strings are lists of 8-bit characters.
\<close>

datatype object_id = ObjectId string

datatype val =
    VNone
  | VBool bool
  | VInt int
  | VStr string
  | VDate int
  | VObjectId object_id
  | VList "val list"
  | VDict "(string \<times> val) list"

type_synonym doc = "(string \<times> val) list"

text \<open>
  Exceptions. \<open>HTTPException\<close> is the framework's, raised by the handlers; \<open>InvalidId\<close>
  is raised by \<^verbatim>\<open>ObjectId(...)\<close>; the others come from the driver. The detail of an
  \<open>HTTPException\<close> is a message or \<^verbatim>\<open>str(e)\<close> of a caught exception.
\<close>

datatype exn =
    HTTPException nat detail
  | InvalidId string
  | WriteError string
  | OperationFailure string
  | DuplicateKeyError
  | DatabaseUnavailable
and detail = Text string | Str exn

text \<open>
  The status the caller sees: an \<open>HTTPException\<close> carries it; any other exception leaves
  the handler unhandled and the framework answers 500.
\<close>

fun status_of :: "exn \<Rightarrow> nat" where
  "status_of (HTTPException s d) = s"
| "status_of e = 500"

subsection \<open>ObjectId\<close>

text \<open>
  \<^verbatim>\<open>ObjectId(s)\<close> accepts a string of 24 hexadecimal digits and raises
  \<open>InvalidId\<close> otherwise; \<^verbatim>\<open>str(oid)\<close> is the lower-case hexadecimal text.
\<close>

definition to_lower :: "char \<Rightarrow> char" where
  "to_lower c = (let n = (of_char c :: nat) in if 65 \<le> n \<and> n \<le> 90 then char_of (n + 32) else c)"

definition is_hex :: "char \<Rightarrow> bool" where
  "is_hex c = (let n = (of_char c :: nat) in
     (48 \<le> n \<and> n \<le> 57) \<or> (65 \<le> n \<and> n \<le> 70) \<or> (97 \<le> n \<and> n \<le> 102))"

definition ObjectId_of_str :: "string \<Rightarrow> exn + object_id" where
  "ObjectId_of_str s =
     (if length s = 24 \<and> list_all is_hex s then Inr (ObjectId (map to_lower s))
      else Inl (InvalidId s))"

fun str_ObjectId :: "object_id \<Rightarrow> string" where
  "str_ObjectId (ObjectId h) = h"

subsection \<open>Conversion of documents to JSON\<close>

text \<open>
  \<^verbatim>\<open>
  def to_json(doc):
      if not doc:
          return doc
      doc = dict(doc)
      if isinstance(doc.get("_id"), ObjectId):
          doc["id"] = str(doc.pop("_id"))
      return doc
  \<close>
  The right-hand side \<^verbatim>\<open>str(doc.pop("_id"))\<close> runs first, then the key \<^verbatim>\<open>id\<close> is
  set: in place when it exists, at the end otherwise.
\<close>

definition to_json :: "doc \<Rightarrow> doc" where
  "to_json doc =
     (if doc = [] then doc
      else (case map_of doc ''_id'' of
              Some (VObjectId oid) \<Rightarrow>
                AList.update ''id'' (VStr (str_ObjectId oid)) (AList.delete ''_id'' doc)
            | _ \<Rightarrow> doc))"

subsection \<open>The database and the driver operations\<close>

text \<open>
  The handle \<^verbatim>\<open>db\<close> imported from the database module is a database or \<^verbatim>\<open>None\<close>.
  A database maps a collection name to its documents in store order (a collection never
  written is empty), and records every driver operation issued on it, oldest first, so
  that "no read or write is attempted" can be stated.
\<close>

datatype driver_call = FindOne string | Find string | UpdateOne string | InsertOne string

record database =
  collections :: "string \<Rightarrow> doc list"
  calls :: "driver_call list"

text \<open>
  An equality filter \<^verbatim>\<open>{field: v}\<close>: the field holds \<open>v\<close>, or an array with the element
  \<open>v\<close>; the filter value null also matches a missing field.
\<close>

definition eq_matches :: "val \<Rightarrow> val option \<Rightarrow> bool" where
  "eq_matches v fv =
     (case fv of
        None \<Rightarrow> v = VNone
      | Some x \<Rightarrow> x = v \<or> (case x of VList xs \<Rightarrow> v \<in> set xs | _ \<Rightarrow> False))"

definition field_eq :: "string \<Rightarrow> val \<Rightarrow> doc \<Rightarrow> bool" where
  "field_eq f v doc = eq_matches v (map_of doc f)"

definition log_call :: "driver_call \<Rightarrow> database \<Rightarrow> database" where
  "log_call c d = d\<lparr>calls := calls d @ [c]\<rparr>"

text \<open>\<^verbatim>\<open>db[c].find_one(filter)\<close>: the first matching document, or \<^verbatim>\<open>None\<close>.\<close>

definition find_one :: "database \<Rightarrow> string \<Rightarrow> (doc \<Rightarrow> bool) \<Rightarrow> doc option \<times> database" where
  "find_one d c p = (List.find p (collections d c), log_call (FindOne c) d)"

text \<open>
  \<^verbatim>\<open>db[c].find(filter).sort(key, -1)\<close>. Values are compared by BSON type first (a
  missing field counts as null, the lowest), then by value. Integers, booleans and dates
  are compared by value; all values of any other one type are treated as equal, which is
  enough for the key \<^verbatim>\<open>created_at\<close>, a date or null. The order among equal keys is not
  fixed by the store; the model takes one order and the properties below do not depend on it.
\<close>

fun sort_rank :: "val option \<Rightarrow> nat \<times> int" where
  "sort_rank None = (1, 0)"
| "sort_rank (Some VNone) = (1, 0)"
| "sort_rank (Some (VInt n)) = (2, n)"
| "sort_rank (Some (VStr s)) = (3, 0)"
| "sort_rank (Some (VDict kvs)) = (4, 0)"
| "sort_rank (Some (VList xs)) = (5, 0)"
| "sort_rank (Some (VObjectId oid)) = (7, 0)"
| "sort_rank (Some (VBool b)) = (8, if b then 1 else 0)"
| "sort_rank (Some (VDate t)) = (9, t)"

definition find_sort_desc ::
  "database \<Rightarrow> string \<Rightarrow> (doc \<Rightarrow> bool) \<Rightarrow> string \<Rightarrow> doc list \<times> database" where
  "find_sort_desc d c p key =
     (rev (sort_key (\<lambda>doc. sort_rank (map_of doc key)) (filter p (collections d c))),
      log_call (Find c) d)"

text \<open>
  The store holds integers in at most 64 bits, signed.
\<close>

definition int64_max :: int where
  "int64_max = 9223372036854775807"

definition int64_min :: int where
  "int64_min = - 9223372036854775808"

definition in_int64 :: "int \<Rightarrow> bool" where
  "in_int64 n = (int64_min \<le> n \<and> n \<le> int64_max)"

text \<open>
  The update document \<^verbatim>\<open>{"$inc": inc, "$set": set}\<close>. \<^verbatim>\<open>$inc\<close> adds to an integer
  field and creates a missing field with the amount. The server refuses it on a field of
  any other type, and when the sum leaves the 64-bit range; the document is then left as
  it was.
\<close>

fun apply_inc :: "(string \<times> int) list \<Rightarrow> doc \<Rightarrow> exn + doc" where
  "apply_inc [] doc = Inr doc"
| "apply_inc ((f, n) # r) doc =
     (case map_of doc f of
        None \<Rightarrow> apply_inc r (AList.update f (VInt n) doc)
      | Some (VInt v) \<Rightarrow>
          if in_int64 (v + n) then apply_inc r (AList.update f (VInt (v + n)) doc)
          else Inl (WriteError f)
      | Some _ \<Rightarrow> Inl (WriteError f))"

fun apply_set :: "(string \<times> val) list \<Rightarrow> doc \<Rightarrow> doc" where
  "apply_set [] doc = doc"
| "apply_set ((f, v) # r) doc = apply_set r (AList.update f v doc)"

definition apply_update :: "(string \<times> int) list \<Rightarrow> (string \<times> val) list \<Rightarrow> doc \<Rightarrow> exn + doc" where
  "apply_update inc st doc =
     (case apply_inc inc doc of Inl e \<Rightarrow> Inl e | Inr doc' \<Rightarrow> Inr (apply_set st doc'))"

text \<open>
  \<^verbatim>\<open>db[c].update_one(filter, update)\<close> changes the first matching document only and
  reports \<^verbatim>\<open>matched_count\<close>.
\<close>

fun update_first :: "(doc \<Rightarrow> bool) \<Rightarrow> (doc \<Rightarrow> exn + doc) \<Rightarrow> doc list \<Rightarrow> exn + nat \<times> doc list" where
  "update_first p u [] = Inr (0, [])"
| "update_first p u (x # xs) =
     (if p x then (case u x of Inl e \<Rightarrow> Inl e | Inr x' \<Rightarrow> Inr (1, x' # xs))
      else (case update_first p u xs of
              Inl e \<Rightarrow> Inl e
            | Inr (n, xs') \<Rightarrow> Inr (n, x # xs')))"

definition update_one ::
  "database \<Rightarrow> string \<Rightarrow> (doc \<Rightarrow> bool) \<Rightarrow> (doc \<Rightarrow> exn + doc) \<Rightarrow> (exn + nat) \<times> database" where
  "update_one d c p u =
     (case update_first p u (collections d c) of
        Inl e \<Rightarrow> (Inl e, log_call (UpdateOne c) d)
      | Inr (n, xs) \<Rightarrow>
          (Inr n, (log_call (UpdateOne c) d)\<lparr>collections := (collections d)(c := xs)\<rparr>))"

subsection \<open>Voting\<close>

text \<open>
  \<^verbatim>\<open>
  def vote_meme(meme_id: str, body: VoteBody):
      if db is None:
          raise HTTPException(status_code=500, detail="Database not configured")
      if body.direction not in ("up", "down"):
          raise HTTPException(status_code=400, detail="Invalid direction")
      inc = {"upvotes": 1} if body.direction == "up" else {"downvotes": 1}
      res = db["meme"].update_one({"_id": ObjectId(meme_id)},
                                  {"$inc": inc, "$set": {"updated_at": None}})
      if res.matched_count == 0:
          raise HTTPException(status_code=404, detail="Meme not found")
      return {"ok": True}
  \<close>
  A handler returns its answer (an exception or a value) together with the database
  handle after the call.
\<close>

record VoteBody =
  direction :: string

definition vote_meme ::
  "database option \<Rightarrow> string \<Rightarrow> VoteBody \<Rightarrow> (exn + doc) \<times> database option" where
  "vote_meme db meme_id body =
     (case db of
        None \<Rightarrow> (Inl (HTTPException 500 (Text ''Database not configured'')), None)
      | Some d \<Rightarrow>
          if direction body \<noteq> ''up'' \<and> direction body \<noteq> ''down''
          then (Inl (HTTPException 400 (Text ''Invalid direction'')), Some d)
          else
            let inc = (if direction body = ''up'' then [(''upvotes'', 1)] else [(''downvotes'', 1)])
            in (case ObjectId_of_str meme_id of
                  Inl e \<Rightarrow> (Inl e, Some d)
                | Inr oid \<Rightarrow>
                    (case update_one d ''meme'' (field_eq ''_id'' (VObjectId oid))
                            (apply_update inc [(''updated_at'', VNone)]) of
                       (Inl e, d') \<Rightarrow> (Inl e, Some d')
                     | (Inr matched_count, d') \<Rightarrow>
                         if matched_count = 0
                         then (Inl (HTTPException 404 (Text ''Meme not found'')), Some d')
                         else (Inr [(''ok'', VBool True)], Some d'))))"

text \<open>The vote operation called \<open>n\<close> times in a row: the answers, and the final handle.\<close>

fun vote_times ::
  "nat \<Rightarrow> database option \<Rightarrow> string \<Rightarrow> VoteBody \<Rightarrow> (exn + doc) list \<times> database option" where
  "vote_times 0 db meme_id body = ([], db)"
| "vote_times (Suc n) db meme_id body =
     (case vote_meme db meme_id body of
        (r, db') \<Rightarrow> (case vote_times n db' meme_id body of (rs, db'') \<Rightarrow> (r # rs, db'')))"

text \<open>The stored documents of a collection behind a handle.\<close>

definition stored :: "database option \<Rightarrow> string \<Rightarrow> doc list" where
  "stored db c = (case db of None \<Rightarrow> [] | Some d \<Rightarrow> collections d c)"

definition issued :: "database option \<Rightarrow> driver_call list" where
  "issued db = (case db of None \<Rightarrow> [] | Some d \<Rightarrow> calls d)"

text \<open>A vote counter of a stored document, read as an integer (0 when the field is absent).\<close>

definition counter :: "string \<Rightarrow> doc \<Rightarrow> int" where
  "counter f doc = (case map_of doc f of Some (VInt n) \<Rightarrow> n | _ \<Rightarrow> 0)"

text \<open>
  What one vote call may do to a stored document \<open>a\<close>, giving \<open>b\<close>: no counter is
  lowered, and the two counters together rise by at most one.
\<close>

definition vote_rel :: "doc \<Rightarrow> doc \<Rightarrow> bool" where
  "vote_rel a b = (counter ''upvotes'' a \<le> counter ''upvotes'' b
      \<and> counter ''downvotes'' a \<le> counter ''downvotes'' b
      \<and> counter ''upvotes'' b + counter ''downvotes'' b \<le> counter ''upvotes'' a + counter ''downvotes'' a + 1)"

subsection \<open>Retrieval of one Meme\<close>

text \<open>
  \<^verbatim>\<open>
  def get_meme(meme_id: str):
      if db is None:
          raise HTTPException(status_code=500, detail="Database not configured")
      try:
          doc = db["meme"].find_one({"_id": ObjectId(meme_id)})
          if not doc:
              raise HTTPException(status_code=404, detail="Meme not found")
          comments = list(db["comment"].find({"meme_id": meme_id}).sort("created_at", -1))
          meme_json = to_json(doc)
          meme_json["comments"] = [to_json(c) for c in comments]
          return meme_json
      except Exception as e:
          raise HTTPException(status_code=500, detail=str(e))
  \<close>
  \<open>get_meme_try\<close> is the body of the \<^verbatim>\<open>try\<close>; \<open>get_meme\<close> adds the guard before it
  and the \<^verbatim>\<open>except Exception\<close> around it, which catches every exception raised in the
  body, the body's own \<open>HTTPException\<close> included.
\<close>

definition get_meme_try :: "database \<Rightarrow> string \<Rightarrow> (exn + doc) \<times> database" where
  "get_meme_try d meme_id =
     (case ObjectId_of_str meme_id of
        Inl e \<Rightarrow> (Inl e, d)
      | Inr oid \<Rightarrow>
          (case find_one d ''meme'' (field_eq ''_id'' (VObjectId oid)) of
             (None, d1) \<Rightarrow> (Inl (HTTPException 404 (Text ''Meme not found'')), d1)
           | (Some doc, d1) \<Rightarrow>
               if doc = [] then (Inl (HTTPException 404 (Text ''Meme not found'')), d1)
               else
                 (case find_sort_desc d1 ''comment'' (field_eq ''meme_id'' (VStr meme_id)) ''created_at'' of
                    (comments, d2) \<Rightarrow>
                      (Inr (AList.update ''comments'' (VList (map (\<lambda>c. VDict (to_json c)) comments))
                              (to_json doc)), d2))))"

definition get_meme :: "database option \<Rightarrow> string \<Rightarrow> (exn + doc) \<times> database option" where
  "get_meme db meme_id =
     (case db of
        None \<Rightarrow> (Inl (HTTPException 500 (Text ''Database not configured'')), None)
      | Some d \<Rightarrow>
          (case get_meme_try d meme_id of
             (Inl e, d') \<Rightarrow> (Inl (HTTPException 500 (Str e)), Some d')
           | (Inr r, d') \<Rightarrow> (Inr r, Some d')))"

text \<open>The key by which the comments are ordered.\<close>

definition created_key :: "doc \<Rightarrow> nat \<times> int" where
  "created_key c = sort_rank (map_of c ''created_at'')"

text \<open>
  The reference of a Comment to a Meme as the specification words it: the Comment's
  \<^verbatim>\<open>meme_id\<close> is the Meme's external id, the string form of its identifier.
\<close>

definition references :: "doc \<Rightarrow> doc \<Rightarrow> bool" where
  "references c m =
     (case map_of m ''_id'' of
        Some (VObjectId oid) \<Rightarrow> map_of c ''meme_id'' = Some (VStr (str_ObjectId oid))
      | _ \<Rightarrow> False)"

subsection \<open>Comments\<close>

record Comment =
  comment_meme_id :: string
  comment_author :: "string option"
  comment_text :: string
  comment_created_at :: "int option"

text \<open>\<^verbatim>\<open>comment.model_dump()\<close>: the fields in declaration order, an absent optional as null.\<close>

definition Comment_model_dump :: "Comment \<Rightarrow> doc" where
  "Comment_model_dump c =
     [(''meme_id'', VStr (comment_meme_id c)),
      (''author'', (case comment_author c of None \<Rightarrow> VNone | Some a \<Rightarrow> VStr a)),
      (''text'', VStr (comment_text c)),
      (''created_at'', (case comment_created_at c of None \<Rightarrow> VNone | Some t \<Rightarrow> VDate t))]"

text \<open>
  \<^verbatim>\<open>db[c].insert_one(data)\<close> for a document without \<^verbatim>\<open>_id\<close>: the driver assigns the
  identifier \<open>new_id\<close>, which the environment supplies; the unique index on \<^verbatim>\<open>_id\<close>
  refuses an identifier already in the collection.
\<close>

definition insert_one :: "database \<Rightarrow> string \<Rightarrow> object_id \<Rightarrow> doc \<Rightarrow> (exn + object_id) \<times> database" where
  "insert_one d c new_id data =
     (if list_ex (\<lambda>x. map_of x ''_id'' = Some (VObjectId new_id)) (collections d c)
      then (Inl DuplicateKeyError, log_call (InsertOne c) d)
      else (Inr new_id,
            (log_call (InsertOne c) d)\<lparr>collections :=
               (collections d)(c := collections d c @ [AList.update ''_id'' (VObjectId new_id) data])\<rparr>))"

text \<open>
  Modelled from the spec: \<^verbatim>\<open>create_document\<close> of the database module, which is not
  among the sources. The spec says of it: it inserts one document into the named
  collection and returns the newly assigned external identifier as a string; any storage
  error surfaces as an error with no partial insert; without a database every endpoint
  that needs one fails.
\<close>

definition create_document ::
  "database option \<Rightarrow> object_id \<Rightarrow> string \<Rightarrow> doc \<Rightarrow> (exn + string) \<times> database option" where
  "create_document db new_id collection_name data =
     (case db of
        None \<Rightarrow> (Inl DatabaseUnavailable, None)
      | Some d \<Rightarrow>
          (case insert_one d collection_name new_id data of
             (Inl e, d') \<Rightarrow> (Inl e, Some d')
           | (Inr oid, d') \<Rightarrow> (Inr (str_ObjectId oid), Some d')))"

text \<open>
  \<^verbatim>\<open>
  def add_comment(meme_id: str, comment: Comment):
      if db is None:
          raise HTTPException(status_code=500, detail="Database not configured")
      # Ensure meme exists
      if not db["meme"].find_one({"_id": ObjectId(meme_id)}):
          raise HTTPException(status_code=404, detail="Meme not found")
      data = comment.model_dump()
      data["meme_id"] = meme_id
      inserted_id = create_document("comment", data)
      return {"id": inserted_id}
  \<close>
\<close>

definition add_comment ::
  "database option \<Rightarrow> object_id \<Rightarrow> string \<Rightarrow> Comment \<Rightarrow> (exn + doc) \<times> database option" where
  "add_comment db new_id meme_id comment =
     (case db of
        None \<Rightarrow> (Inl (HTTPException 500 (Text ''Database not configured'')), None)
      | Some d \<Rightarrow>
          (case ObjectId_of_str meme_id of
             Inl e \<Rightarrow> (Inl e, Some d)
           | Inr oid \<Rightarrow>
               (case find_one d ''meme'' (field_eq ''_id'' (VObjectId oid)) of
                  (r, d1) \<Rightarrow>
                    if r = None \<or> r = Some []
                    then (Inl (HTTPException 404 (Text ''Meme not found'')), Some d1)
                    else
                      let data = Comment_model_dump comment;
                          data = AList.update ''meme_id'' (VStr meme_id) data
                      in (case create_document (Some d1) new_id ''comment'' data of
                            (Inl e, db') \<Rightarrow> (Inl e, db')
                          | (Inr inserted_id, db') \<Rightarrow> (Inr [(''id'', VStr inserted_id)], db')))))"

subsection \<open>Listing and search\<close>

text \<open>
  The query filter of the listing is a dictionary whose entries all have to hold:
  \<^verbatim>\<open>{"$or": [{f: cond}, ...]}\<close> and \<^verbatim>\<open>{field: cond}\<close>, where a condition is a value
  (equality), \<^verbatim>\<open>{"$regex": q, "$options": o}\<close> or \<^verbatim>\<open>{"$in": [v, ...]}\<close>.
\<close>

datatype field_cond = EqTo val | RegexOpt string string | InList "val list"

datatype cond = FieldCond string field_cond | OrOf "(string \<times> field_cond) list"

type_synonym filter_dict = "cond list"

text \<open>
  Regular expressions. The store's engine is outside the program. One fragment is
  modelled in full: a pattern of ordinary ASCII characters and dots, with no option or
  the option \<^verbatim>\<open>i\<close>, matched against an ASCII subject. There an ordinary character
  matches itself (with \<^verbatim>\<open>i\<close>: up to the case of the letters A to Z), a dot matches any
  character but the line feed, and the pattern is searched anywhere in the subject.
  Everything else is the engine's, which is the parameter \<open>pcre\<close>: it compiles any other
  pattern or option to a matcher or refuses it (\<open>pcre_compile\<close>), and it decides the
  match of a pattern of the fragment against a subject that is not all ASCII
  (\<open>pcre_beyond_ascii\<close>), where case is a matter of Unicode.
\<close>

datatype atom = Lit char | AnyChar

definition is_ascii :: "char \<Rightarrow> bool" where
  "is_ascii c = (of_char c < (128::nat))"

definition is_meta :: "char \<Rightarrow> bool" where
  "is_meta c = (c \<in> set ''.^$|?*+()[]{}'' \<or> of_char c = (92::nat))"

fun pattern_of :: "string \<Rightarrow> atom list option" where
  "pattern_of [] = Some []"
| "pattern_of (c # cs) =
     (if c = CHR ''.'' then map_option ((#) AnyChar) (pattern_of cs)
      else if is_meta c \<or> \<not> is_ascii c then None
      else map_option ((#) (Lit c)) (pattern_of cs))"

fun atom_matches :: "bool \<Rightarrow> atom \<Rightarrow> char \<Rightarrow> bool" where
  "atom_matches ci (Lit c) x = (if ci then to_lower c = to_lower x else c = x)"
| "atom_matches ci AnyChar x = (of_char x \<noteq> (10::nat))"

fun match_here :: "bool \<Rightarrow> atom list \<Rightarrow> string \<Rightarrow> bool" where
  "match_here ci [] s = True"
| "match_here ci (a # as) [] = False"
| "match_here ci (a # as) (x # xs) = (atom_matches ci a x \<and> match_here ci as xs)"

fun search :: "bool \<Rightarrow> atom list \<Rightarrow> string \<Rightarrow> bool" where
  "search ci p [] = match_here ci p []"
| "search ci p (x # xs) = (match_here ci p (x # xs) \<or> search ci p xs)"

record regex_engine =
  pcre_compile :: "string \<Rightarrow> string \<Rightarrow> exn + (string \<Rightarrow> bool)"
  pcre_beyond_ascii :: "string \<Rightarrow> string \<Rightarrow> string \<Rightarrow> bool"

definition regex_compile :: "regex_engine \<Rightarrow> string \<Rightarrow> string \<Rightarrow> exn + (string \<Rightarrow> bool)" where
  "regex_compile pcre q opts =
     (case pattern_of q of
        Some p \<Rightarrow>
          if opts = [] \<or> opts = ''i''
          then Inr (\<lambda>s. if list_all is_ascii s then search (opts = ''i'') p s
                         else pcre_beyond_ascii pcre q opts s)
          else pcre_compile pcre q opts
      | None \<Rightarrow> pcre_compile pcre q opts)"

text \<open>A regular expression matches a string field, or an array field with a matching string.\<close>

definition str_matches :: "(string \<Rightarrow> bool) \<Rightarrow> val \<Rightarrow> bool" where
  "str_matches m v = (case v of VStr s \<Rightarrow> m s | _ \<Rightarrow> False)"

definition regex_matches :: "(string \<Rightarrow> bool) \<Rightarrow> val option \<Rightarrow> bool" where
  "regex_matches m fv =
     (case fv of
        Some (VStr s) \<Rightarrow> m s
      | Some (VList xs) \<Rightarrow> list_ex (str_matches m) xs
      | _ \<Rightarrow> False)"

fun field_cond_pred :: "regex_engine \<Rightarrow> field_cond \<Rightarrow> exn + (val option \<Rightarrow> bool)" where
  "field_cond_pred pcre (EqTo v) = Inr (eq_matches v)"
| "field_cond_pred pcre (InList vs) = Inr (\<lambda>fv. list_ex (\<lambda>v. eq_matches v fv) vs)"
| "field_cond_pred pcre (RegexOpt q opts) =
     (case regex_compile pcre q opts of Inl e \<Rightarrow> Inl e | Inr m \<Rightarrow> Inr (regex_matches m))"

fun clauses_pred :: "regex_engine \<Rightarrow> (string \<times> field_cond) list \<Rightarrow> exn + (doc \<Rightarrow> bool)" where
  "clauses_pred pcre [] = Inr (\<lambda>doc. False)"
| "clauses_pred pcre ((f, c) # r) =
     (case field_cond_pred pcre c of
        Inl e \<Rightarrow> Inl e
      | Inr p \<Rightarrow>
          (case clauses_pred pcre r of
             Inl e \<Rightarrow> Inl e
           | Inr rest \<Rightarrow> Inr (\<lambda>doc. p (map_of doc f) \<or> rest doc)))"

fun cond_pred :: "regex_engine \<Rightarrow> cond \<Rightarrow> exn + (doc \<Rightarrow> bool)" where
  "cond_pred pcre (FieldCond f c) =
     (case field_cond_pred pcre c of Inl e \<Rightarrow> Inl e | Inr p \<Rightarrow> Inr (\<lambda>doc. p (map_of doc f)))"
| "cond_pred pcre (OrOf cs) =
     (if cs = [] then Inl (OperationFailure ''$or must be a nonempty array'')
      else clauses_pred pcre cs)"

fun filter_pred :: "regex_engine \<Rightarrow> filter_dict \<Rightarrow> exn + (doc \<Rightarrow> bool)" where
  "filter_pred pcre [] = Inr (\<lambda>doc. True)"
| "filter_pred pcre (c # r) =
     (case cond_pred pcre c of
        Inl e \<Rightarrow> Inl e
      | Inr p \<Rightarrow>
          (case filter_pred pcre r of
             Inl e \<Rightarrow> Inl e
           | Inr rest \<Rightarrow> Inr (\<lambda>doc. p doc \<and> rest doc)))"

text \<open>
  Modelled from the spec: \<^verbatim>\<open>get_documents\<close> of the database module, which is not among
  the sources. The spec says of the listing it serves: the documents matching the filter
  are returned in the order of the storage engine, capped at \<open>limit\<close>; without a
  database every endpoint that needs one fails.
\<close>

definition get_documents ::
  "regex_engine \<Rightarrow> database option \<Rightarrow> string \<Rightarrow> filter_dict \<Rightarrow> int
     \<Rightarrow> (exn + doc list) \<times> database option" where
  "get_documents pcre db collection_name filter_dict limit =
     (case db of
        None \<Rightarrow> (Inl DatabaseUnavailable, None)
      | Some d \<Rightarrow>
          (case filter_pred pcre filter_dict of
             Inl e \<Rightarrow> (Inl e, Some (log_call (Find collection_name) d))
           | Inr p \<Rightarrow>
               (Inr (take (nat limit) (filter p (collections d collection_name))),
                Some (log_call (Find collection_name) d))))"

text \<open>
  \<^verbatim>\<open>
  def list_memes(q: Optional[str] = None, tag: Optional[str] = None, limit: int = 50):
      try:
          filter_dict = {}
          if q:
              # Simple regex search on title or caption
              filter_dict["$or"] = [
                  {"title": {"$regex": q, "$options": "i"}},
                  {"caption": {"$regex": q, "$options": "i"}},
                  {"origin_summary": {"$regex": q, "$options": "i"}},
              ]
          if tag:
              filter_dict["tags"] = {"$in": [tag]}
          docs = get_documents("meme", filter_dict, limit)
          return [to_json(d) for d in docs]
      except Exception as e:
          raise HTTPException(status_code=500, detail=str(e))
  \<close>
  \<^verbatim>\<open>if q:\<close> is false for \<^verbatim>\<open>None\<close> and for the empty string.
\<close>

definition list_memes ::
  "regex_engine \<Rightarrow> database option \<Rightarrow> string option \<Rightarrow> string option \<Rightarrow> int option
     \<Rightarrow> (exn + doc list) \<times> database option" where
  "list_memes pcre db q tag limit =
     (let lim = (case limit of None \<Rightarrow> 50 | Some l \<Rightarrow> l);
          by_q = (case q of
                    None \<Rightarrow> []
                  | Some s \<Rightarrow>
                      if s = [] then []
                      else [OrOf [(''title'', RegexOpt s ''i''),
                                  (''caption'', RegexOpt s ''i''),
                                  (''origin_summary'', RegexOpt s ''i'')]]);
          by_tag = (case tag of
                      None \<Rightarrow> []
                    | Some t \<Rightarrow> if t = [] then [] else [FieldCond ''tags'' (InList [VStr t])]);
          filter_dict = by_q @ by_tag
      in (case get_documents pcre db ''meme'' filter_dict lim of
            (Inl e, db') \<Rightarrow> (Inl (HTTPException 500 (Str e)), db')
          | (Inr docs, db') \<Rightarrow> (Inr (map to_json docs), db')))"

text \<open>
  The listing as the specification words it, read on ASCII text. A text contains \<open>q\<close>
  "as a case-insensitive substring": on ASCII text, where case is the case of the letters
  A to Z, that is \<open>ascii_contains_ci\<close>. What the words mean on other text is left
  open here, and the properties below use the reading on ASCII text only. A Meme is
  matched by \<open>q\<close> when its title, caption or origin summary contains it; it is matched
  by a tag when its list of tags has that very element; both hold when both are given.
\<close>

definition ascii_contains_ci :: "string \<Rightarrow> string \<Rightarrow> bool" where
  "ascii_contains_ci q s = sublist (map to_lower q) (map to_lower s)"

definition text_contains :: "string \<Rightarrow> val option \<Rightarrow> bool" where
  "text_contains q fv = (case fv of Some (VStr s) \<Rightarrow> ascii_contains_ci q s | _ \<Rightarrow> False)"

definition spec_q_matches :: "string \<Rightarrow> doc \<Rightarrow> bool" where
  "spec_q_matches q doc =
     (text_contains q (map_of doc ''title'') \<or> text_contains q (map_of doc ''caption'')
      \<or> text_contains q (map_of doc ''origin_summary''))"

definition spec_tag_matches :: "string \<Rightarrow> doc \<Rightarrow> bool" where
  "spec_tag_matches t doc =
     (case map_of doc ''tags'' of Some (VList ts) \<Rightarrow> VStr t \<in> set ts | _ \<Rightarrow> False)"

definition spec_selected :: "string option \<Rightarrow> string option \<Rightarrow> doc \<Rightarrow> bool" where
  "spec_selected q tag doc =
     ((case q of None \<Rightarrow> True | Some s \<Rightarrow> spec_q_matches s doc)
      \<and> (case tag of None \<Rightarrow> True | Some t \<Rightarrow> spec_tag_matches t doc))"






text \<open>An engine to run the examples with; the patterns and texts of the examples never reach it.\<close>

definition example_engine :: regex_engine where
  "example_engine =
     \<lparr>pcre_compile = (\<lambda>q opts. Inl (OperationFailure q)),
      pcre_beyond_ascii = (\<lambda>q opts s. False)\<rparr>"

subsection \<open>Validation of a Meme payload\<close>

text \<open>
  A request body is a JSON object. Numbers are integers here; a number with a fraction
  is not modelled.
\<close>

datatype json = JNull | JBool bool | JInt int | JStr string | JArr "json list"
  | JObj "(string \<times> json) list"

text \<open>
  Validation answers with the first field that fails, where the library lists all of
  them; the properties below are about acceptance and rejection only.
\<close>

datatype validation_error = Missing string | WrongType string | BadUrl string | Negative string

text \<open>
  \<^verbatim>\<open>
  class Meme(BaseModel):
      title: str = Field(...)
      image_url: Optional[HttpUrl] = Field(None)
      caption: Optional[str] = Field(None)
      origin_summary: Optional[str] = Field(None)
      first_seen_at: Optional[str] = Field(None)
      sources: List[HttpUrl] = Field(default_factory=list)
      tags: List[str] = Field(default_factory=list)
      submitter: Optional[str] = Field(None)
      upvotes: int = Field(0, ge=0)
      downvotes: int = Field(0, ge=0)
  \<close>
\<close>

record Meme =
  title :: string
  image_url :: "string option"
  caption :: "string option"
  origin_summary :: "string option"
  first_seen_at :: "string option"
  sources :: "string list"
  tags :: "string list"
  submitter :: "string option"
  upvotes :: int
  downvotes :: int

text \<open>
  Two routines of the validation library are parameters: the URL parser behind
  \<^verbatim>\<open>HttpUrl\<close>, which gives the normalised URL or refuses the text, and the reading of a
  string as an integer, which the library's lax mode tries on an \<^verbatim>\<open>int\<close> field.
\<close>

record pydantic =
  parse_url :: "string \<Rightarrow> string option"
  str_as_int :: "string \<Rightarrow> int option"

text \<open>A field declared with \<^verbatim>\<open>...\<close> is required; a \<^verbatim>\<open>str\<close> takes a JSON string only.\<close>

definition required_str :: "(string \<times> json) list \<Rightarrow> string \<Rightarrow> validation_error + string" where
  "required_str payload f =
     (case map_of payload f of
        None \<Rightarrow> Inl (Missing f)
      | Some (JStr s) \<Rightarrow> Inr s
      | Some _ \<Rightarrow> Inl (WrongType f))"

text \<open>An optional field with default \<^verbatim>\<open>None\<close>: absent and null both give \<^verbatim>\<open>None\<close>.\<close>

definition optional_str :: "(string \<times> json) list \<Rightarrow> string \<Rightarrow> validation_error + string option" where
  "optional_str payload f =
     (case map_of payload f of
        None \<Rightarrow> Inr None
      | Some JNull \<Rightarrow> Inr None
      | Some (JStr s) \<Rightarrow> Inr (Some s)
      | Some _ \<Rightarrow> Inl (WrongType f))"

definition http_url :: "pydantic \<Rightarrow> string \<Rightarrow> json \<Rightarrow> validation_error + string" where
  "http_url py f v =
     (case v of
        JStr s \<Rightarrow> (case parse_url py s of None \<Rightarrow> Inl (BadUrl f) | Some u \<Rightarrow> Inr u)
      | _ \<Rightarrow> Inl (WrongType f))"

definition optional_url :: "pydantic \<Rightarrow> (string \<times> json) list \<Rightarrow> string \<Rightarrow> validation_error + string option" where
  "optional_url py payload f =
     (case map_of payload f of
        None \<Rightarrow> Inr None
      | Some JNull \<Rightarrow> Inr None
      | Some v \<Rightarrow> (case http_url py f v of Inl e \<Rightarrow> Inl e | Inr u \<Rightarrow> Inr (Some u)))"

text \<open>A list field with \<^verbatim>\<open>default_factory=list\<close>: absent gives the empty list, every element is checked.\<close>

fun each :: "(json \<Rightarrow> validation_error + 'a) \<Rightarrow> json list \<Rightarrow> validation_error + 'a list" where
  "each check [] = Inr []"
| "each check (v # vs) =
     (case check v of
        Inl e \<Rightarrow> Inl e
      | Inr x \<Rightarrow> (case each check vs of Inl e \<Rightarrow> Inl e | Inr xs \<Rightarrow> Inr (x # xs)))"

definition list_field ::
  "(json \<Rightarrow> validation_error + 'a) \<Rightarrow> (string \<times> json) list \<Rightarrow> string \<Rightarrow> validation_error + 'a list" where
  "list_field check payload f =
     (case map_of payload f of
        None \<Rightarrow> Inr []
      | Some (JArr vs) \<Rightarrow> each check vs
      | Some _ \<Rightarrow> Inl (WrongType f))"

definition str_item :: "string \<Rightarrow> json \<Rightarrow> validation_error + string" where
  "str_item f v = (case v of JStr s \<Rightarrow> Inr s | _ \<Rightarrow> Inl (WrongType f))"

text \<open>
  An \<^verbatim>\<open>int\<close> field in lax mode takes an integer, a boolean (as 0 or 1) or a string that
  reads as an integer; \<^verbatim>\<open>ge=0\<close> is checked on the result. An absent field takes the
  default 0.
\<close>

definition as_int :: "pydantic \<Rightarrow> string \<Rightarrow> json \<Rightarrow> validation_error + int" where
  "as_int py f v =
     (case v of
        JInt n \<Rightarrow> Inr n
      | JBool b \<Rightarrow> Inr (if b then 1 else 0)
      | JStr s \<Rightarrow> (case str_as_int py s of None \<Rightarrow> Inl (WrongType f) | Some n \<Rightarrow> Inr n)
      | _ \<Rightarrow> Inl (WrongType f))"

definition count_field :: "pydantic \<Rightarrow> (string \<times> json) list \<Rightarrow> string \<Rightarrow> validation_error + int" where
  "count_field py payload f =
     (case map_of payload f of
        None \<Rightarrow> Inr 0
      | Some v \<Rightarrow>
          (case as_int py f v of
             Inl e \<Rightarrow> Inl e
           | Inr n \<Rightarrow> if 0 \<le> n then Inr n else Inl (Negative f)))"

text \<open>The fields are validated in the order of their declaration.\<close>

definition and_then :: "validation_error + 'a \<Rightarrow> ('a \<Rightarrow> validation_error + 'b) \<Rightarrow> validation_error + 'b" where
  "and_then r k = (case r of Inl e \<Rightarrow> Inl e | Inr x \<Rightarrow> k x)"

definition Meme_validate :: "pydantic \<Rightarrow> (string \<times> json) list \<Rightarrow> validation_error + Meme" where
  "Meme_validate py payload =
     and_then (required_str payload ''title'') (\<lambda>t.
     and_then (optional_url py payload ''image_url'') (\<lambda>i.
     and_then (optional_str payload ''caption'') (\<lambda>c.
     and_then (optional_str payload ''origin_summary'') (\<lambda>os.
     and_then (optional_str payload ''first_seen_at'') (\<lambda>fs.
     and_then (list_field (http_url py ''sources'') payload ''sources'') (\<lambda>ss.
     and_then (list_field (str_item ''tags'') payload ''tags'') (\<lambda>ts.
     and_then (optional_str payload ''submitter'') (\<lambda>sb.
     and_then (count_field py payload ''upvotes'') (\<lambda>u.
     and_then (count_field py payload ''downvotes'') (\<lambda>dn.
       Inr \<lparr>title = t, image_url = i, caption = c, origin_summary = os, first_seen_at = fs,
            sources = ss, tags = ts, submitter = sb, upvotes = u, downvotes = dn\<rparr>))))))))))"

subsection \<open>Example data\<close>

text \<open>One Meme and three Comments on it, stored out of order of their creation times.\<close>

definition example_id :: string where
  "example_id = ''65a1b2c3d4e5f60718293a4b''"

definition example_meme :: doc where
  "example_meme =
     [(''_id'', VObjectId (ObjectId example_id)), (''title'', VStr ''Doge''),
      (''image_url'', VNone), (''caption'', VStr ''such wow''), (''origin_summary'', VNone),
      (''first_seen_at'', VStr ''2013''), (''sources'', VList []),
      (''tags'', VList [VStr ''funny'', VStr ''dog'']), (''submitter'', VNone),
      (''upvotes'', VInt 2), (''downvotes'', VInt 0)]"

definition example_comment :: "string \<Rightarrow> string \<Rightarrow> int \<Rightarrow> doc" where
  "example_comment cid txt t =
     [(''_id'', VObjectId (ObjectId cid)), (''meme_id'', VStr example_id), (''author'', VNone),
      (''text'', VStr txt), (''created_at'', VDate t)]"

definition example_db :: database where
  "example_db =
     \<lparr>collections = (\<lambda>c. if c = ''meme'' then [example_meme]
          else if c = ''comment''
          then [example_comment ''65a1b2c3d4e5f60718293a52'' ''second'' 20,
                example_comment ''65a1b2c3d4e5f60718293a51'' ''first'' 10,
                example_comment ''65a1b2c3d4e5f60718293a53'' ''third'' 30]
          else []),
      calls = []\<rparr>"

text \<open>The identifier of the example Meme, spelt with upper-case hexadecimal digits.\<close>

definition example_id_upper :: string where
  "example_id_upper = ''65A1B2C3D4E5F60718293A4B''"

text \<open>The same Meme with its upvotes at the largest integer the store holds.\<close>

definition example_full_meme :: doc where
  "example_full_meme = AList.update ''upvotes'' (VInt 9223372036854775807) example_meme"

definition example_full_db :: database where
  "example_full_db = \<lparr>collections = (\<lambda>c. if c = ''meme'' then [example_full_meme] else []), calls = []\<rparr>"

text \<open>Stand-ins for the library routines in the examples.\<close>

definition example_pydantic :: pydantic where
  "example_pydantic =
     \<lparr>parse_url = (\<lambda>s. if take 7 s = ''http://'' \<or> take 8 s = ''https://'' then Some s else None),
      str_as_int = (\<lambda>s. None)\<rparr>"

section \<open>Properties\<close>

subsection \<open>Conversion to JSON\<close>

lemma to_json_with_id:
  assumes "map_of doc ''_id'' = Some (VObjectId oid)"
  shows "to_json doc = AList.update ''id'' (VStr (str_ObjectId oid)) (AList.delete ''_id'' doc)"
proof -
  from assms have "doc \<noteq> []" by auto
  with assms show ?thesis by (simp add: to_json_def)
qed

text \<open>
  Claim C9. A document that carries the internal identifier field \<^verbatim>\<open>_id\<close> (an
  ObjectId) is rewritten by \<open>to_json\<close>: the identifier's string form is found under
  \<^verbatim>\<open>id\<close>, the field \<^verbatim>\<open>_id\<close> is gone, and every other field keeps its value.
\<close>

theorem to_json_exposes_id:
  assumes "map_of doc ''_id'' = Some (VObjectId oid)"
  shows "map_of (to_json doc) ''id'' = Some (VStr (str_ObjectId oid))
       \<and> map_of (to_json doc) ''_id'' = None
       \<and> (\<forall>k. k \<noteq> ''id'' \<and> k \<noteq> ''_id'' \<longrightarrow> map_of (to_json doc) k = map_of doc k)"
  unfolding to_json_with_id [OF assms]
  by (simp add: update_conv' delete_conv')

theorem to_json_exposes_id_witness:
  "map_of [(''_id'', VObjectId (ObjectId ''65a1b2c3d4e5f60718293a4b'')), (''title'', VStr ''Doge'')] ''_id''
     = Some (VObjectId (ObjectId ''65a1b2c3d4e5f60718293a4b''))
   \<and> to_json [(''_id'', VObjectId (ObjectId ''65a1b2c3d4e5f60718293a4b'')), (''title'', VStr ''Doge'')]
     = [(''title'', VStr ''Doge''), (''id'', VStr ''65a1b2c3d4e5f60718293a4b'')]
   \<and> map_of (to_json [(''_id'', VObjectId (ObjectId ''65a1b2c3d4e5f60718293a4b'')), (''title'', VStr ''Doge'')]) ''id''
     = Some (VStr ''65a1b2c3d4e5f60718293a4b'')
   \<and> map_of (to_json [(''_id'', VObjectId (ObjectId ''65a1b2c3d4e5f60718293a4b'')), (''title'', VStr ''Doge'')]) ''_id''
     = None"
  using to_json_exposes_id [of "[(''_id'', VObjectId (ObjectId ''65a1b2c3d4e5f60718293a4b'')), (''title'', VStr ''Doge'')]"
      "ObjectId ''65a1b2c3d4e5f60718293a4b''"]
  by (simp add: to_json_def)

subsection \<open>Voting\<close>

lemma update_first_rel:
  assumes "\<And>x x'. p x \<Longrightarrow> u x = Inr x' \<Longrightarrow> R x x'" and "\<And>x. R x x"
    and "update_first p u xs = Inr (n, xs')"
  shows "list_all2 R xs xs'"
  using assms(3)
proof (induction xs arbitrary: n xs')
  case Nil
  then show ?case by simp
next
  case (Cons x xs)
  show ?case
  proof (cases "p x")
    case True
    with Cons.prems obtain x' where "u x = Inr x'" "xs' = x' # xs" "n = 1"
      by (auto split: sum.splits)
    with True assms(1,2) show ?thesis by (simp add: list_all2_refl)
  next
    case False
    with Cons.prems obtain m ys where "update_first p u xs = Inr (m, ys)" "xs' = x # ys"
      by (auto split: sum.splits)
    with Cons.IH assms(2) show ?thesis by simp
  qed
qed

lemma update_first_no_match:
  "List.find p xs = None \<Longrightarrow> update_first p u xs = Inr (0, xs)"
  by (induction xs) (auto split: if_splits)

lemma update_first_match:
  assumes "List.find p xs = Some x" and "u x = Inr x'" and "p x'"
  shows "\<exists>xs'. update_first p u xs = Inr (1, xs') \<and> List.find p xs' = Some x'"
  using assms(1)
proof (induction xs)
  case Nil
  then show ?case by simp
next
  case (Cons y ys)
  show ?case
  proof (cases "p y")
    case True
    with Cons.prems have "y = x" by simp
    with True assms(2,3) show ?thesis by simp
  next
    case False
    with Cons.prems have "List.find p ys = Some x" by simp
    from Cons.IH [OF this] obtain ys' where "update_first p u ys = Inr (1, ys')" "List.find p ys' = Some x'"
      by blast
    with False show ?thesis by simp
  qed
qed

lemma find_Some_holds: "List.find p xs = Some x \<Longrightarrow> p x"
  by (induction xs) (auto split: if_splits)

lemma vote_step:
  assumes parse: "ObjectId_of_str meme_id = Inr oid"
    and hit: "List.find (field_eq ''_id'' (VObjectId oid)) (collections d ''meme'') = Some m"
    and up: "map_of m ''upvotes'' = Some (VInt u)"
    and down: "map_of m ''downvotes'' = Some (VInt w)"
    and dir: "direction body = ''up'' \<or> direction body = ''down''"
    and room: "in_int64 ((if direction body = ''up'' then u else w) + 1)"
  shows "\<exists>d' m'. vote_meme (Some d) meme_id body = (Inr [(''ok'', VBool True)], Some d')
           \<and> List.find (field_eq ''_id'' (VObjectId oid)) (collections d' ''meme'') = Some m'
           \<and> map_of m' ''upvotes'' = Some (VInt (if direction body = ''up'' then u + 1 else u))
           \<and> map_of m' ''downvotes'' = Some (VInt (if direction body = ''up'' then w else w + 1))"
proof -
  let ?p = "field_eq ''_id'' (VObjectId oid)"
  let ?inc = "if direction body = ''up'' then [(''upvotes'', 1)] else [(''downvotes'', 1::int)]"
  let ?u = "apply_update ?inc [(''updated_at'', VNone)]"
  define m' where "m' = (if direction body = ''up''
      then AList.update ''updated_at'' VNone (AList.update ''upvotes'' (VInt (u + 1)) m)
      else AList.update ''updated_at'' VNone (AList.update ''downvotes'' (VInt (w + 1)) m))"
  have um: "?u m = Inr m'"
    using up down room
    by (cases "direction body = ''up''") (simp_all add: apply_update_def m'_def)
  have pm: "?p m" using hit by (rule find_Some_holds)
  have id: "map_of m' ''_id'' = map_of m ''_id''"
    by (simp add: m'_def update_conv')
  have pm': "?p m'" using pm by (simp add: field_eq_def id)
  from update_first_match [of ?p "collections d ''meme''" m ?u m', OF hit um pm'] obtain xs'
    where xs': "update_first ?p ?u (collections d ''meme'') = Inr (1, xs')" "List.find ?p xs' = Some m'"
    by blast
  have v: "vote_meme (Some d) meme_id body =
      (Inr [(''ok'', VBool True)], Some ((log_call (UpdateOne ''meme'') d)\<lparr>collections := (collections d)(''meme'' := xs')\<rparr>))"
    using dir parse xs'(1) by (auto simp add: vote_meme_def update_one_def Let_def)
  have f1: "map_of m' ''upvotes'' = Some (VInt (if direction body = ''up'' then u + 1 else u))"
    using up by (simp add: m'_def update_conv')
  have f2: "map_of m' ''downvotes'' = Some (VInt (if direction body = ''up'' then w else w + 1))"
    using down by (simp add: m'_def update_conv')
  show ?thesis using v xs'(2) f1 f2 by simp
qed

lemma vote_times_hit:
  assumes parse: "ObjectId_of_str meme_id = Inr oid"
    and dir: "direction body = ''up'' \<or> direction body = ''down''"
  shows "List.find (field_eq ''_id'' (VObjectId oid)) (collections d ''meme'') = Some m
     \<Longrightarrow> map_of m ''upvotes'' = Some (VInt u) \<Longrightarrow> map_of m ''downvotes'' = Some (VInt w)
     \<Longrightarrow> 0 \<le> (if direction body = ''up'' then u else w)
     \<Longrightarrow> (if direction body = ''up'' then u else w) + int n \<le> int64_max
     \<Longrightarrow> \<exists>d' m'. vote_times n (Some d) meme_id body = (replicate n (Inr [(''ok'', VBool True)]), Some d')
           \<and> List.find (field_eq ''_id'' (VObjectId oid)) (collections d' ''meme'') = Some m'
           \<and> map_of m' ''upvotes'' = Some (VInt (if direction body = ''up'' then u + int n else u))
           \<and> map_of m' ''downvotes'' = Some (VInt (if direction body = ''up'' then w else w + int n))"
proof (induction n arbitrary: d m u w)
  case 0
  then show ?case by simp
next
  case (Suc n)
  have room: "in_int64 ((if direction body = ''up'' then u else w) + 1)"
    using Suc.prems(4,5)
    by (cases "direction body = ''up''") (simp_all add: in_int64_def int64_min_def)
  have nonneg: "0 \<le> (if direction body = ''up''
      then (if direction body = ''up'' then u + 1 else u)
      else (if direction body = ''up'' then w else w + 1))"
    using Suc.prems(4) by (cases "direction body = ''up''") simp_all
  have bound: "(if direction body = ''up''
      then (if direction body = ''up'' then u + 1 else u)
      else (if direction body = ''up'' then w else w + 1)) + int n \<le> int64_max"
    using Suc.prems(5) by (cases "direction body = ''up''") simp_all
  from vote_step [OF parse Suc.prems(1,2,3) dir room] obtain d1 m1 where
    s: "vote_meme (Some d) meme_id body = (Inr [(''ok'', VBool True)], Some d1)"
      "List.find (field_eq ''_id'' (VObjectId oid)) (collections d1 ''meme'') = Some m1"
      "map_of m1 ''upvotes'' = Some (VInt (if direction body = ''up'' then u + 1 else u))"
      "map_of m1 ''downvotes'' = Some (VInt (if direction body = ''up'' then w else w + 1))"
    by blast
  from Suc.IH [OF s(2,3,4) nonneg bound] obtain d' m' where
    t: "vote_times n (Some d1) meme_id body = (replicate n (Inr [(''ok'', VBool True)]), Some d')"
      "List.find (field_eq ''_id'' (VObjectId oid)) (collections d' ''meme'') = Some m'"
      "map_of m' ''upvotes'' = Some (VInt (if direction body = ''up'' then (if direction body = ''up'' then u + 1 else u) + int n else (if direction body = ''up'' then u + 1 else u)))"
      "map_of m' ''downvotes'' = Some (VInt (if direction body = ''up'' then (if direction body = ''up'' then w else w + 1) else (if direction body = ''up'' then w else w + 1) + int n))"
    by blast
  have "vote_times (Suc n) (Some d) meme_id body = (replicate (Suc n) (Inr [(''ok'', VBool True)]), Some d')"
    using s(1) t(1) by simp
  moreover have "map_of m' ''upvotes'' = Some (VInt (if direction body = ''up'' then u + int (Suc n) else u))"
    using t(3) by (simp add: algebra_simps)
  moreover have "map_of m' ''downvotes'' = Some (VInt (if direction body = ''up'' then w else w + int (Suc n)))"
    using t(4) by (simp add: algebra_simps)
  ultimately show ?case using t(2) by blast
qed

lemma apply_update_vote_rel:
  assumes "f = ''upvotes'' \<or> f = ''downvotes''"
    and "apply_update [(f, 1)] [(''updated_at'', VNone)] x = Inr x'"
  shows "vote_rel x x'"
proof (cases "map_of x f")
  case None
  with assms(2) have "x' = AList.update ''updated_at'' VNone (AList.update f (VInt 1) x)"
    by (simp add: apply_update_def)
  with None assms(1) show ?thesis
    by (auto simp add: vote_rel_def counter_def update_conv')
next
  case (Some v)
  with assms(2) obtain n where n: "v = VInt n"
    by (cases v) (simp_all add: apply_update_def)
  with Some assms(2) have "x' = AList.update ''updated_at'' VNone (AList.update f (VInt (n + 1)) x)"
    by (simp add: apply_update_def split: if_splits)
  with Some n assms(1) show ?thesis
    by (auto simp add: vote_rel_def counter_def update_conv')
qed

lemma vote_meme_monotone:
  "list_all2 vote_rel (stored db ''meme'') (stored (snd (vote_meme db meme_id body)) ''meme'')"
proof (cases db)
  case None
  then show ?thesis by (simp add: vote_meme_def stored_def)
next
  case (Some d)
  have refl: "list_all2 vote_rel xs xs" for xs
    by (simp add: list_all2_refl vote_rel_def)
  let ?inc = "if direction body = ''up'' then [(''upvotes'', 1)] else [(''downvotes'', 1::int)]"
  show ?thesis
  proof (cases "direction body \<noteq> ''up'' \<and> direction body \<noteq> ''down''")
    case True
    with Some show ?thesis by (simp add: vote_meme_def stored_def refl)
  next
    case dir: False
    show ?thesis
    proof (cases "ObjectId_of_str meme_id")
      case (Inl e)
      with Some dir show ?thesis by (simp add: vote_meme_def stored_def refl Let_def)
    next
      case (Inr oid)
      let ?p = "field_eq ''_id'' (VObjectId oid)"
      let ?u = "apply_update ?inc [(''updated_at'', VNone)]"
      show ?thesis
      proof (cases "update_first ?p ?u (collections d ''meme'')")
        case (Inl e)
        with Some dir Inr show ?thesis
          by (simp add: vote_meme_def stored_def refl Let_def update_one_def log_call_def)
      next
        case r: (Inr nx)
        obtain n xs' where nx: "nx = (n, xs')" by (cases nx)
        have "list_all2 vote_rel (collections d ''meme'') xs'"
        proof (rule update_first_rel [where p = ?p and u = ?u])
          show "update_first ?p ?u (collections d ''meme'') = Inr (n, xs')" using r nx by simp
        next
          fix x show "vote_rel x x" by (simp add: vote_rel_def)
        next
          fix x x' assume "?u x = Inr x'"
          then show "vote_rel x x'"
            using apply_update_vote_rel [of "if direction body = ''up'' then ''upvotes'' else ''downvotes''" x x']
            by (simp split: if_splits)
        qed
        with Some dir Inr r nx show ?thesis
          by (simp add: vote_meme_def stored_def Let_def update_one_def log_call_def refl)
      qed
    qed
  qed
qed

lemma example_parse: "ObjectId_of_str example_id = Inr (ObjectId example_id)"
  by code_simp

lemma example_hit:
  "List.find (field_eq ''_id'' (VObjectId (ObjectId example_id))) (collections example_db ''meme'') = Some example_meme"
  by (simp add: example_db_def example_meme_def field_eq_def eq_matches_def)

text \<open>
  Claim C2, as amended. Let a stored Meme, found under the request's id, hold the integer
  counters \<open>u\<close> (upvotes) and \<open>w\<close> (downvotes), neither negative. If \<open>u + N\<close> is within
  the store's 64-bit range, \<open>N\<close> vote calls with direction "up" all succeed and leave the
  Meme with upvotes \<open>u + N\<close> and downvotes \<open>w\<close>; symmetrically, if \<open>w + N\<close> is within
  the range, \<open>N\<close> calls with "down" leave upvotes \<open>u\<close> and downvotes \<open>w + N\<close>. And for
  any single vote call whatsoever, on any handle, id and body, every stored Meme keeps or
  raises each counter (so a counter that is not negative stays so), the two together by
  at most one.
\<close>

theorem vote_meme_counts:
  assumes "ObjectId_of_str meme_id = Inr oid"
    and "List.find (field_eq ''_id'' (VObjectId oid)) (collections d ''meme'') = Some m"
    and "map_of m ''upvotes'' = Some (VInt u)"
    and "map_of m ''downvotes'' = Some (VInt w)"
    and "0 \<le> u" and "0 \<le> w"
  shows "(u + int N \<le> int64_max \<longrightarrow>
          (\<exists>d' m'. vote_times N (Some d) meme_id \<lparr>direction = ''up''\<rparr>
              = (replicate N (Inr [(''ok'', VBool True)]), Some d')
            \<and> List.find (field_eq ''_id'' (VObjectId oid)) (collections d' ''meme'') = Some m'
            \<and> map_of m' ''upvotes'' = Some (VInt (u + int N))
            \<and> map_of m' ''downvotes'' = Some (VInt w)))
       \<and> (w + int N \<le> int64_max \<longrightarrow>
          (\<exists>d' m'. vote_times N (Some d) meme_id \<lparr>direction = ''down''\<rparr>
              = (replicate N (Inr [(''ok'', VBool True)]), Some d')
            \<and> List.find (field_eq ''_id'' (VObjectId oid)) (collections d' ''meme'') = Some m'
            \<and> map_of m' ''upvotes'' = Some (VInt u)
            \<and> map_of m' ''downvotes'' = Some (VInt (w + int N))))
       \<and> list_all2 vote_rel (stored db0 ''meme'') (stored (snd (vote_meme db0 id0 body0)) ''meme'')"
proof -
  have a: "direction \<lparr>direction = ''up''\<rparr> = ''up'' \<or> direction \<lparr>direction = ''up''\<rparr> = ''down''"
    by simp
  have b: "direction \<lparr>direction = ''down''\<rparr> = ''up'' \<or> direction \<lparr>direction = ''down''\<rparr> = ''down''"
    by simp
  show ?thesis
    using vote_times_hit [OF assms(1) a assms(2,3,4), of N]
      vote_times_hit [OF assms(1) b assms(2,3,4), of N]
      vote_meme_monotone [of db0 id0 body0] assms(5,6)
    by simp
qed

theorem vote_meme_counts_witness:
  "ObjectId_of_str example_id = Inr (ObjectId example_id)
   \<and> List.find (field_eq ''_id'' (VObjectId (ObjectId example_id))) (collections example_db ''meme'')
       = Some example_meme
   \<and> map_of example_meme ''upvotes'' = Some (VInt 2)
   \<and> map_of example_meme ''downvotes'' = Some (VInt 0)
   \<and> (2::int) + int 3 \<le> int64_max \<and> (0::int) + int 3 \<le> int64_max
   \<and> (\<exists>d' m'. vote_times 3 (Some example_db) example_id \<lparr>direction = ''up''\<rparr>
              = (replicate 3 (Inr [(''ok'', VBool True)]), Some d')
            \<and> List.find (field_eq ''_id'' (VObjectId (ObjectId example_id))) (collections d' ''meme'') = Some m'
            \<and> map_of m' ''upvotes'' = Some (VInt 5)
            \<and> map_of m' ''downvotes'' = Some (VInt 0))
   \<and> (\<exists>d' m'. vote_times 3 (Some example_db) example_id \<lparr>direction = ''down''\<rparr>
              = (replicate 3 (Inr [(''ok'', VBool True)]), Some d')
            \<and> List.find (field_eq ''_id'' (VObjectId (ObjectId example_id))) (collections d' ''meme'') = Some m'
            \<and> map_of m' ''upvotes'' = Some (VInt 2)
            \<and> map_of m' ''downvotes'' = Some (VInt 3))"
proof -
  have u: "map_of example_meme ''upvotes'' = Some (VInt 2)" by (simp add: example_meme_def)
  have w: "map_of example_meme ''downvotes'' = Some (VInt 0)" by (simp add: example_meme_def)
  have r: "(2::int) + int 3 \<le> int64_max" "(0::int) + int 3 \<le> int64_max"
    by (simp_all add: int64_max_def)
  have n: "(0::int) \<le> 2" "(0::int) \<le> 0" by simp_all
  show ?thesis
    using vote_meme_counts [OF example_parse example_hit u w n, of 3] example_parse example_hit u w r
    by simp
qed

text \<open>
  Claim C2 as stated fails at the store's limit: a Meme whose upvotes are
  9223372036854775807, a value the schema admits, cannot be voted up. The store refuses
  the increment, the handler does not catch the refusal (status 500), and the counter stays.
\<close>

theorem vote_at_int64_max_counterexample:
  "collections example_full_db ''meme'' = [example_full_meme]
   \<and> map_of example_full_meme ''upvotes'' = Some (VInt 9223372036854775807)
   \<and> fst (vote_meme (Some example_full_db) example_id \<lparr>direction = ''up''\<rparr>) = Inl (WriteError ''upvotes'')
   \<and> status_of (WriteError ''upvotes'') = 500
   \<and> stored (snd (vote_meme (Some example_full_db) example_id \<lparr>direction = ''up''\<rparr>)) ''meme''
       = [example_full_meme]"
proof -
  have c: "collections example_full_db ''meme'' = [example_full_meme]"
    by (simp add: example_full_db_def)
  have i: "map_of example_full_meme ''_id'' = Some (VObjectId (ObjectId example_id))"
    by (simp add: example_full_meme_def example_meme_def update_conv')
  have u: "map_of example_full_meme ''upvotes'' = Some (VInt 9223372036854775807)"
    by (simp add: example_full_meme_def update_conv')
  have a: "apply_update [(''upvotes'', 1)] [(''updated_at'', VNone)] example_full_meme = Inl (WriteError ''upvotes'')"
    by (simp add: apply_update_def u in_int64_def int64_max_def)
  have v: "vote_meme (Some example_full_db) example_id \<lparr>direction = ''up''\<rparr>
      = (Inl (WriteError ''upvotes''), Some (log_call (UpdateOne ''meme'') example_full_db))"
    by (simp add: vote_meme_def example_parse update_one_def c field_eq_def eq_matches_def i a)
  show ?thesis using c u v by (simp add: stored_def log_call_def)
qed

text \<open>
  Claim C3. On a configured database, a vote whose direction is neither "up" nor "down"
  is answered with the 400 error "Invalid direction", whatever the meme id, and every
  collection holds the same documents afterwards.
\<close>

theorem vote_invalid_direction:
  assumes "direction body \<noteq> ''up''" and "direction body \<noteq> ''down''"
  shows "fst (vote_meme (Some d) meme_id body) = Inl (HTTPException 400 (Text ''Invalid direction''))
       \<and> status_of (HTTPException 400 (Text ''Invalid direction'')) = 400
       \<and> stored (snd (vote_meme (Some d) meme_id body)) c = collections d c"
  using assms by (simp add: vote_meme_def stored_def)

theorem vote_invalid_direction_witness:
  "direction \<lparr>direction = ''left''\<rparr> \<noteq> ''up'' \<and> direction \<lparr>direction = ''left''\<rparr> \<noteq> ''down''
   \<and> fst (vote_meme (Some example_db) example_id \<lparr>direction = ''left''\<rparr>)
       = Inl (HTTPException 400 (Text ''Invalid direction''))
   \<and> stored (snd (vote_meme (Some example_db) example_id \<lparr>direction = ''left''\<rparr>)) ''meme''
       = [example_meme]"
  using vote_invalid_direction [of "\<lparr>direction = ''left''\<rparr>" example_db example_id "''meme''"]
  by (simp add: example_db_def)

text \<open>
  Claim C10. The direction is checked before the id is parsed and before the driver is
  called: on a configured database, for every meme id (malformed, absent or present), a
  direction outside "up"/"down" gives the 400 error, the handle is returned as it was, and
  no driver operation has been issued. The lemma after it shows the contrast: with a valid
  direction and a well-formed id the driver's \<^verbatim>\<open>update_one\<close> is called.
\<close>

theorem vote_direction_checked_first:
  assumes "direction body \<noteq> ''up''" and "direction body \<noteq> ''down''"
  shows "vote_meme (Some d) meme_id body = (Inl (HTTPException 400 (Text ''Invalid direction'')), Some d)
       \<and> issued (snd (vote_meme (Some d) meme_id body)) = calls d"
  using assms by (simp add: vote_meme_def issued_def)

lemma vote_valid_direction_calls_driver:
  assumes "direction body = ''up'' \<or> direction body = ''down''"
    and "ObjectId_of_str meme_id = Inr oid"
  shows "issued (snd (vote_meme (Some d) meme_id body)) = calls d @ [UpdateOne ''meme'']"
  using assms
  by (auto simp add: vote_meme_def issued_def update_one_def log_call_def Let_def
      split: sum.splits prod.splits)

theorem vote_direction_checked_first_witness:
  "direction \<lparr>direction = ''left''\<rparr> \<noteq> ''up'' \<and> direction \<lparr>direction = ''left''\<rparr> \<noteq> ''down''
   \<and> (\<exists>e. ObjectId_of_str ''not-an-id'' = Inl e)
   \<and> vote_meme (Some example_db) ''not-an-id'' \<lparr>direction = ''left''\<rparr>
       = (Inl (HTTPException 400 (Text ''Invalid direction'')), Some example_db)
   \<and> issued (snd (vote_meme (Some example_db) ''not-an-id'' \<lparr>direction = ''left''\<rparr>)) = []"
  using vote_direction_checked_first [of "\<lparr>direction = ''left''\<rparr>" example_db "''not-an-id''"]
  by (simp add: example_db_def ObjectId_of_str_def issued_def)

lemma vote_absent_not_found:
  assumes "direction body = ''up'' \<or> direction body = ''down''"
    and "ObjectId_of_str meme_id = Inr oid"
    and "List.find (field_eq ''_id'' (VObjectId oid)) (collections d ''meme'') = None"
  shows "fst (vote_meme (Some d) meme_id body) = Inl (HTTPException 404 (Text ''Meme not found''))
       \<and> stored (snd (vote_meme (Some d) meme_id body)) c = collections d c"
  using assms update_first_no_match [OF assms(3)]
  by (auto simp add: vote_meme_def stored_def update_one_def log_call_def Let_def)

lemma vote_malformed_id:
  assumes "direction body = ''up'' \<or> direction body = ''down''"
    and "ObjectId_of_str meme_id = Inl e"
  shows "vote_meme (Some d) meme_id body = (Inl (InvalidId meme_id), Some d)
       \<and> status_of (InvalidId meme_id) = 500"
  using assms by (auto simp add: vote_meme_def Let_def ObjectId_of_str_def split: if_splits)

text \<open>
  Claim C4, at a malformed id. \<^verbatim>\<open>ObjectId(meme_id)\<close> is evaluated outside any handler
  of \<open>InvalidId\<close>: the id \<^verbatim>\<open>abc\<close>, which matches no stored Meme, is answered with the
  unhandled exception (status 500), not with 404. No document is changed. For a
  well-formed id that matches no Meme, \<open>vote_absent_not_found\<close> above gives the 404.
\<close>

theorem vote_malformed_id_is_500:
  "vote_meme (Some example_db) ''abc'' \<lparr>direction = ''up''\<rparr> = (Inl (InvalidId ''abc''), Some example_db)
   \<and> status_of (InvalidId ''abc'') = 500
   \<and> list_all (\<lambda>m. \<not> field_eq ''_id'' (VStr ''abc'') m) (collections example_db ''meme'')"
  by (simp add: vote_meme_def ObjectId_of_str_def example_db_def example_meme_def field_eq_def eq_matches_def)

subsection \<open>Retrieval of one Meme\<close>

lemma field_eq_nonempty: "field_eq f (VObjectId oid) m \<Longrightarrow> m \<noteq> []"
  by (auto simp add: field_eq_def eq_matches_def)

lemma sort_desc_props:
  "mset (rev (sort_key k xs)) = mset xs"
  "sorted_wrt (\<lambda>a b. k b \<le> k a) (rev (sort_key k xs))"
proof -
  show "mset (rev (sort_key k xs)) = mset xs" by simp
  have "sorted (map k (sort_key k xs))" by (rule sorted_sort_key)
  then have "sorted_wrt (\<lambda>a b. k a \<le> k b) (sort_key k xs)" by (simp add: sorted_map)
  then show "sorted_wrt (\<lambda>a b. k b \<le> k a) (rev (sort_key k xs))" by (simp add: sorted_wrt_rev)
qed

lemma get_meme_found:
  assumes "ObjectId_of_str meme_id = Inr oid"
    and "List.find (field_eq ''_id'' (VObjectId oid)) (collections d ''meme'') = Some m"
  shows "fst (get_meme (Some d) meme_id) =
      Inr (AList.update ''comments''
            (VList (map (\<lambda>c. VDict (to_json c))
               (rev (sort_key created_key (filter (field_eq ''meme_id'' (VStr meme_id)) (collections d ''comment'')))))) (to_json m))"
proof -
  have "field_eq ''_id'' (VObjectId oid) m" using assms(2) by (rule find_Some_holds)
  then have "m \<noteq> []" by (rule field_eq_nonempty)
  moreover have "created_key = (\<lambda>doc. sort_rank (map_of doc ''created_at''))"
    by (rule ext) (simp add: created_key_def)
  ultimately show ?thesis using assms
    by (simp add: get_meme_def get_meme_try_def find_one_def find_sort_desc_def log_call_def)
qed

text \<open>
  Claim C6, as amended. When the request's id parses and a stored Meme \<open>m\<close> is found
  under it, the answer is the Meme's JSON form with the field \<^verbatim>\<open>comments\<close>: the JSON
  forms of a list \<open>cs\<close> that holds exactly the stored Comments whose \<^verbatim>\<open>meme_id\<close> is the
  id string as the request gives it (each as often as it is stored), ordered by
  \<^verbatim>\<open>created_at\<close> descending. The lemmas after it read the order on dates: a later date
  comes first, a Comment without a date after every dated one. In the example the
  Comments are stored with times 20, 10, 30 and returned as 30, 20, 10.
\<close>

theorem get_meme_comments_newest_first:
  assumes "ObjectId_of_str meme_id = Inr oid"
    and "List.find (field_eq ''_id'' (VObjectId oid)) (collections d ''meme'') = Some m"
  shows "\<exists>cs. fst (get_meme (Some d) meme_id)
            = Inr (AList.update ''comments'' (VList (map (\<lambda>c. VDict (to_json c)) cs)) (to_json m))
          \<and> mset cs = mset (filter (field_eq ''meme_id'' (VStr meme_id)) (collections d ''comment''))
          \<and> sorted_wrt (\<lambda>a b. created_key b \<le> created_key a) cs"
  using get_meme_found [OF assms] sort_desc_props [of created_key]
  by blast

lemma created_key_dates:
  "map_of a ''created_at'' = Some (VDate t) \<Longrightarrow> map_of b ''created_at'' = Some (VDate t')
     \<Longrightarrow> (created_key b \<le> created_key a) = (t' \<le> t)"
  by (simp add: created_key_def)

lemma created_key_null:
  "map_of b ''created_at'' = Some VNone \<or> map_of b ''created_at'' = None \<Longrightarrow> map_of a ''created_at'' = Some (VDate t)
     \<Longrightarrow> created_key b \<le> created_key a"
  by (auto simp add: created_key_def)

lemma example_get:
  "fst (get_meme (Some example_db) example_id) =
     Inr (AList.update ''comments''
       (VList [VDict (to_json (example_comment ''65a1b2c3d4e5f60718293a53'' ''third'' 30)),
               VDict (to_json (example_comment ''65a1b2c3d4e5f60718293a52'' ''second'' 20)),
               VDict (to_json (example_comment ''65a1b2c3d4e5f60718293a51'' ''first'' 10))])
       (to_json example_meme))"
  unfolding get_meme_found [OF example_parse example_hit]
  by (simp add: example_db_def example_comment_def field_eq_def eq_matches_def created_key_def)

theorem get_meme_comments_newest_first_witness:
  "ObjectId_of_str example_id = Inr (ObjectId example_id)
   \<and> List.find (field_eq ''_id'' (VObjectId (ObjectId example_id))) (collections example_db ''meme'')
       = Some example_meme
   \<and> (\<exists>cs. fst (get_meme (Some example_db) example_id)
            = Inr (AList.update ''comments'' (VList (map (\<lambda>c. VDict (to_json c)) cs)) (to_json example_meme))
          \<and> mset cs = mset (filter (field_eq ''meme_id'' (VStr example_id)) (collections example_db ''comment''))
          \<and> sorted_wrt (\<lambda>a b. created_key b \<le> created_key a) cs)
   \<and> fst (get_meme (Some example_db) example_id) =
       Inr (AList.update ''comments''
         (VList [VDict (to_json (example_comment ''65a1b2c3d4e5f60718293a53'' ''third'' 30)),
                 VDict (to_json (example_comment ''65a1b2c3d4e5f60718293a52'' ''second'' 20)),
                 VDict (to_json (example_comment ''65a1b2c3d4e5f60718293a51'' ''first'' 10))])
         (to_json example_meme))"
  using get_meme_comments_newest_first [OF example_parse example_hit] example_parse example_hit example_get
  by blast

text \<open>
  Claim C6 as stated fails: the Comments returned are those stamped with the request's
  spelling of the id, not those that reference the Meme found. The identifier spelt in
  upper case parses to the example Meme's identifier, so the Meme is found; its three
  Comments carry the external id, which is lower case, and none of them is returned.
\<close>

theorem get_meme_upper_case_id_counterexample:
  "ObjectId_of_str example_id_upper = Inr (ObjectId example_id)
   \<and> collections example_db ''comment'' =
        [example_comment ''65a1b2c3d4e5f60718293a52'' ''second'' 20,
         example_comment ''65a1b2c3d4e5f60718293a51'' ''first'' 10,
         example_comment ''65a1b2c3d4e5f60718293a53'' ''third'' 30]
   \<and> references (example_comment ''65a1b2c3d4e5f60718293a52'' ''second'' 20) example_meme
   \<and> references (example_comment ''65a1b2c3d4e5f60718293a51'' ''first'' 10) example_meme
   \<and> references (example_comment ''65a1b2c3d4e5f60718293a53'' ''third'' 30) example_meme
   \<and> fst (get_meme (Some example_db) example_id_upper)
       = Inr (AList.update ''comments'' (VList []) (to_json example_meme))"
proof -
  have p: "ObjectId_of_str example_id_upper = Inr (ObjectId example_id)"
    by code_simp
  have c: "collections example_db ''comment'' =
        [example_comment ''65a1b2c3d4e5f60718293a52'' ''second'' 20,
         example_comment ''65a1b2c3d4e5f60718293a51'' ''first'' 10,
         example_comment ''65a1b2c3d4e5f60718293a53'' ''third'' 30]"
    by (simp add: example_db_def)
  have r: "references (example_comment ''65a1b2c3d4e5f60718293a52'' ''second'' 20) example_meme"
    "references (example_comment ''65a1b2c3d4e5f60718293a51'' ''first'' 10) example_meme"
    "references (example_comment ''65a1b2c3d4e5f60718293a53'' ''third'' 30) example_meme"
    by (simp_all add: references_def example_comment_def example_meme_def)
  have n: "filter (field_eq ''meme_id'' (VStr example_id_upper)) (collections example_db ''comment'') = []"
    unfolding c
    by (simp add: field_eq_def eq_matches_def example_comment_def example_id_def example_id_upper_def)
  have g: "fst (get_meme (Some example_db) example_id_upper)
       = Inr (AList.update ''comments'' (VList []) (to_json example_meme))"
    unfolding get_meme_found [OF p example_hit] n by simp
  from p c r g show ?thesis by simp
qed

lemma references_external_id:
  assumes "map_of m ''_id'' = Some (VObjectId oid)" and "map_of c ''meme_id'' = Some (VStr x)"
  shows "references c m = field_eq ''meme_id'' (VStr (str_ObjectId oid)) c"
  using assms by (simp add: references_def field_eq_def eq_matches_def)

lemma get_meme_never_404:
  "fst (get_meme db meme_id) = Inl e \<Longrightarrow> status_of e = 500"
  by (auto simp add: get_meme_def split: option.splits prod.splits sum.splits)

text \<open>
  Claim C1, at a well-formed id that matches no Meme and at a malformed id. The 404 raised
  in the body is caught by the body's own \<^verbatim>\<open>except Exception\<close> and raised again as a
  500 whose detail is the text of the 404; the malformed id gives a 500 whose detail is
  the text of \<open>InvalidId\<close>. Neither is answered with 404 (\<open>get_meme_never_404\<close>
  above: no error of this operation carries another status than 500).
\<close>

theorem get_meme_not_found_is_500:
  "fst (get_meme (Some example_db) ''000000000000000000000000'')
     = Inl (HTTPException 500 (Str (HTTPException 404 (Text ''Meme not found''))))
   \<and> fst (get_meme (Some example_db) ''abc'') = Inl (HTTPException 500 (Str (InvalidId ''abc'')))
   \<and> status_of (HTTPException 500 (Str (HTTPException 404 (Text ''Meme not found'')))) = 500
   \<and> status_of (HTTPException 500 (Str (InvalidId ''abc''))) = 500"
proof -
  have p: "ObjectId_of_str ''000000000000000000000000'' = Inr (ObjectId ''000000000000000000000000'')"
    by code_simp
  have q: "ObjectId_of_str ''abc'' = Inl (InvalidId ''abc'')"
    by (simp add: ObjectId_of_str_def)
  have m: "List.find (field_eq ''_id'' (VObjectId (ObjectId ''000000000000000000000000''))) (collections example_db ''meme'') = None"
    by (simp add: example_db_def example_meme_def example_id_def field_eq_def eq_matches_def)
  show ?thesis
    using p q m by (simp add: get_meme_def get_meme_try_def find_one_def)
qed

subsection \<open>Comments\<close>

lemma add_comment_stamps:
  assumes "ObjectId_of_str meme_id = Inr oid"
    and "List.find (field_eq ''_id'' (VObjectId oid)) (collections d ''meme'') = Some m"
    and "\<not> list_ex (\<lambda>x. map_of x ''_id'' = Some (VObjectId new_id)) (collections d ''comment'')"
  shows "fst (add_comment (Some d) new_id meme_id comment) = Inr [(''id'', VStr (str_ObjectId new_id))]"
    and "stored (snd (add_comment (Some d) new_id meme_id comment)) ''comment''
       = collections d ''comment'' @
           [[(''meme_id'', VStr meme_id),
             (''author'', (case comment_author comment of None \<Rightarrow> VNone | Some a \<Rightarrow> VStr a)),
             (''text'', VStr (comment_text comment)),
             (''created_at'', (case comment_created_at comment of None \<Rightarrow> VNone | Some t \<Rightarrow> VDate t)),
             (''_id'', VObjectId new_id)]]"
proof -
  have "field_eq ''_id'' (VObjectId oid) m" using assms(2) by (rule find_Some_holds)
  then have ne: "m \<noteq> []" by (rule field_eq_nonempty)
  show "fst (add_comment (Some d) new_id meme_id comment) = Inr [(''id'', VStr (str_ObjectId new_id))]"
    using assms ne
    by (simp add: add_comment_def find_one_def create_document_def insert_one_def log_call_def
        Comment_model_dump_def Let_def)
  show "stored (snd (add_comment (Some d) new_id meme_id comment)) ''comment''
       = collections d ''comment'' @
           [[(''meme_id'', VStr meme_id),
             (''author'', (case comment_author comment of None \<Rightarrow> VNone | Some a \<Rightarrow> VStr a)),
             (''text'', VStr (comment_text comment)),
             (''created_at'', (case comment_created_at comment of None \<Rightarrow> VNone | Some t \<Rightarrow> VDate t)),
             (''_id'', VObjectId new_id)]]"
    using assms ne
    by (simp add: add_comment_def find_one_def create_document_def insert_one_def log_call_def
        Comment_model_dump_def Let_def stored_def)
qed

lemma add_comment_absent:
  assumes "ObjectId_of_str meme_id = Inr oid"
    and "List.find (field_eq ''_id'' (VObjectId oid)) (collections d ''meme'') = None"
  shows "fst (add_comment (Some d) new_id meme_id comment) = Inl (HTTPException 404 (Text ''Meme not found''))
       \<and> stored (snd (add_comment (Some d) new_id meme_id comment)) c = collections d c"
  using assms
  by (simp add: add_comment_def find_one_def log_call_def stored_def)

lemma add_comment_failure_keeps_documents:
  "fst (add_comment db new_id meme_id comment) = Inl e
     \<Longrightarrow> stored (snd (add_comment db new_id meme_id comment)) c = stored db c"
  by (auto simp add: add_comment_def find_one_def log_call_def stored_def create_document_def
      insert_one_def Let_def split: option.splits sum.splits if_splits)

text \<open>
  Claim C7, at a malformed path id. \<^verbatim>\<open>ObjectId(meme_id)\<close> is evaluated outside any
  handler of \<open>InvalidId\<close>: for the id \<^verbatim>\<open>abc\<close>, which references no Meme, the call ends
  with the unhandled exception (status 500), not with 404. No Comment is created. The
  lemmas above cover the rest of the claim: for an existing Meme the inserted document
  carries the path's id under \<^verbatim>\<open>meme_id\<close> whatever the body said, for a well-formed id
  that matches no Meme the answer is 404, and no failing call changes a stored document.
\<close>

theorem add_comment_malformed_id_is_500:
  "add_comment (Some example_db) (ObjectId ''65a1b2c3d4e5f60718293a54'') ''abc''
      \<lparr>comment_meme_id = ''abc'', comment_author = None, comment_text = ''hi'', comment_created_at = None\<rparr>
     = (Inl (InvalidId ''abc''), Some example_db)
   \<and> status_of (InvalidId ''abc'') = 500
   \<and> list_all (\<lambda>m. \<not> field_eq ''_id'' (VStr ''abc'') m) (collections example_db ''meme'')"
  by (simp add: add_comment_def ObjectId_of_str_def example_db_def example_meme_def field_eq_def eq_matches_def)

subsection \<open>Listing and search\<close>


















text \<open>
  An empty \<open>tag\<close> is present but filters nothing (\<^verbatim>\<open>if tag:\<close>): the example Meme,
  which has no empty tag, is returned.
\<close>

lemma list_memes_empty_tag:
  "fst (list_memes example_engine (Some example_db) None (Some []) None) = Inr [to_json example_meme]
   \<and> \<not> spec_selected None (Some []) example_meme"
proof -
  have a: "\<not> spec_selected None (Some []) example_meme" by code_simp
  have b: "fst (list_memes example_engine (Some example_db) None (Some []) None) = Inr [to_json example_meme]"
    by (simp add: list_memes_def get_documents_def example_db_def)
  from a b show ?thesis by simp
qed

subsection \<open>Validation of a Meme payload\<close>

lemma and_then_Inl: "r = Inl e \<Longrightarrow> isl (and_then r k)"
  by (simp add: and_then_def)

lemma and_then_isl: "(\<And>x. isl (k x)) \<Longrightarrow> isl (and_then r k)"
  by (cases r) (simp_all add: and_then_def)

lemma each_bad:
  "v \<in> set vs \<Longrightarrow> isl (check v) \<Longrightarrow> isl (each check vs)"
  by (induction vs) (auto split: sum.splits)

lemma missing_title: "map_of payload ''title'' = None \<Longrightarrow> isl (Meme_validate py payload)"
  unfolding Meme_validate_def
  by (rule and_then_Inl [where e = "Missing ''title''"]) (simp add: required_str_def)

lemma negative_count:
  "map_of payload f = Some (JInt n) \<Longrightarrow> n < 0 \<Longrightarrow> count_field py payload f = Inl (Negative f)"
  by (simp add: count_field_def as_int_def)

lemma negative_upvotes:
  assumes "map_of payload ''upvotes'' = Some (JInt n)" and "n < 0"
  shows "isl (Meme_validate py payload)"
  unfolding Meme_validate_def
  by (intro and_then_isl and_then_Inl [OF negative_count [OF assms]])

lemma negative_downvotes:
  assumes "map_of payload ''downvotes'' = Some (JInt n)" and "n < 0"
  shows "isl (Meme_validate py payload)"
  unfolding Meme_validate_def
  by (intro and_then_isl and_then_Inl [OF negative_count [OF assms]])

lemma bad_image_url:
  assumes "map_of payload ''image_url'' = Some (JStr s)" and "parse_url py s = None"
  shows "isl (Meme_validate py payload)"
proof -
  have "optional_url py payload ''image_url'' = Inl (BadUrl ''image_url'')"
    using assms by (simp add: optional_url_def http_url_def)
  then show ?thesis
    unfolding Meme_validate_def by (intro and_then_isl and_then_Inl)
qed

lemma bad_source_url:
  assumes "map_of payload ''sources'' = Some (JArr vs)" and "JStr s \<in> set vs" and "parse_url py s = None"
  shows "isl (Meme_validate py payload)"
proof -
  have "isl (http_url py ''sources'' (JStr s))" using assms(3) by (simp add: http_url_def)
  with assms(2) have "isl (each (http_url py ''sources'') vs)" by (rule each_bad)
  then obtain e where "list_field (http_url py ''sources'') payload ''sources'' = Inl e"
    using assms(1) by (auto simp add: list_field_def isl_def)
  then show ?thesis
    unfolding Meme_validate_def by (intro and_then_isl and_then_Inl)
qed

lemma title_only:
  "Meme_validate py [(''title'', JStr t)] =
     Inr \<lparr>title = t, image_url = None, caption = None, origin_summary = None, first_seen_at = None,
          sources = [], tags = [], submitter = None, upvotes = 0, downvotes = 0\<rparr>"
  by (simp add: Meme_validate_def and_then_def required_str_def optional_url_def optional_str_def
      list_field_def count_field_def)

text \<open>
  Claim C8. Validation of a Meme payload rejects a payload without \<^verbatim>\<open>title\<close>, a payload
  whose \<^verbatim>\<open>upvotes\<close> or \<^verbatim>\<open>downvotes\<close> is a negative integer, a payload whose
  \<^verbatim>\<open>image_url\<close> is a text the URL parser refuses, and a payload whose \<^verbatim>\<open>sources\<close> hold
  such a text. A payload with only a title is accepted: both counters 0, sources and tags
  empty lists, every other optional field absent.
\<close>

theorem Meme_validate_contract:
  "(map_of payload ''title'' = None \<longrightarrow> isl (Meme_validate py payload))
   \<and> (map_of payload ''upvotes'' = Some (JInt n) \<and> n < 0 \<longrightarrow> isl (Meme_validate py payload))
   \<and> (map_of payload ''downvotes'' = Some (JInt n) \<and> n < 0 \<longrightarrow> isl (Meme_validate py payload))
   \<and> (map_of payload ''image_url'' = Some (JStr s) \<and> parse_url py s = None
        \<longrightarrow> isl (Meme_validate py payload))
   \<and> (map_of payload ''sources'' = Some (JArr vs) \<and> JStr s \<in> set vs \<and> parse_url py s = None
        \<longrightarrow> isl (Meme_validate py payload))
   \<and> Meme_validate py [(''title'', JStr t)] =
       Inr \<lparr>title = t, image_url = None, caption = None, origin_summary = None,
            first_seen_at = None, sources = [], tags = [], submitter = None,
            upvotes = 0, downvotes = 0\<rparr>"
  using missing_title [of payload py] negative_upvotes [of payload n py]
    negative_downvotes [of payload n py] bad_image_url [of payload s py]
    bad_source_url [of payload vs s py] title_only [of py t]
  by blast

theorem Meme_validate_contract_witness:
  "isl (Meme_validate example_pydantic [(''caption'', JStr ''no title'')])
   \<and> isl (Meme_validate example_pydantic [(''title'', JStr ''Doge''), (''upvotes'', JInt (- 1))])
   \<and> isl (Meme_validate example_pydantic [(''title'', JStr ''Doge''), (''downvotes'', JInt (- 1))])
   \<and> isl (Meme_validate example_pydantic [(''title'', JStr ''Doge''), (''image_url'', JStr ''not a url'')])
   \<and> isl (Meme_validate example_pydantic
            [(''title'', JStr ''Doge''), (''sources'', JArr [JStr ''https://a.example/'', JStr ''nope''])])
   \<and> Meme_validate example_pydantic [(''title'', JStr ''Doge'')] =
       Inr \<lparr>title = ''Doge'', image_url = None, caption = None, origin_summary = None,
            first_seen_at = None, sources = [], tags = [], submitter = None,
            upvotes = 0, downvotes = 0\<rparr>"
  using Meme_validate_contract [of "[(''caption'', JStr ''no title'')]" example_pydantic "- 1" "''x''" "[]" "''Doge''"]
    Meme_validate_contract [of "[(''title'', JStr ''Doge''), (''upvotes'', JInt (- 1))]" example_pydantic "- 1" "''x''" "[]" "''Doge''"]
    Meme_validate_contract [of "[(''title'', JStr ''Doge''), (''downvotes'', JInt (- 1))]" example_pydantic "- 1" "''x''" "[]" "''Doge''"]
    Meme_validate_contract [of "[(''title'', JStr ''Doge''), (''image_url'', JStr ''not a url'')]" example_pydantic "- 1" "''not a url''" "[]" "''Doge''"]
    Meme_validate_contract [of "[(''title'', JStr ''Doge''), (''sources'', JArr [JStr ''https://a.example/'', JStr ''nope''])]"
       example_pydantic "- 1" "''nope''" "[JStr ''https://a.example/'', JStr ''nope'']" "''Doge''"]
  by (simp add: example_pydantic_def)

end
